theory Spec2Isabelle
  imports Main
begin

section \<open>Launch supervisor of wandb/sdk/launch/launch.py\<close>

text \<open>
  The development embeds the four functions of \<^verbatim>\<open>launch.py\<close> that carry behaviour:
  \<^verbatim>\<open>push_to_queue\<close>, \<^verbatim>\<open>_run\<close>, \<^verbatim>\<open>run\<close> and \<^verbatim>\<open>_wait_for\<close>. Isabelle names cannot
  start with an underscore, so \<^verbatim>\<open>_run\<close> is \<open>run_impl\<close> and \<^verbatim>\<open>_wait_for\<close> is \<open>wait_for\<close>.

  Everything the module imports (\<^verbatim>\<open>construct_run_spec\<close>, \<^verbatim>\<open>create_project_from_spec\<close>,
  \<^verbatim>\<open>fetch_and_validate_project\<close>, \<^verbatim>\<open>loader.load_backend\<close>, \<^verbatim>\<open>loader.WANDB_RUNNERS\<close>,
  \<^verbatim>\<open>_is_wandb_local_uri\<close>, the \<^verbatim>\<open>Api\<close> object, \<^verbatim>\<open>sys.platform\<close>) lives outside the module and
  is a field of the environment record \<open>env\<close>. Each call a function makes is appended to a
  trace, exceptions are the left summand of the result, and the dictionary \<^verbatim>\<open>docker_args\<close>
  is an object in a heap so that writes through the caller's reference are visible.
\<close>

subsection \<open>Exceptions\<close>

text \<open>
  Python's hierarchy: \<^verbatim>\<open>KeyboardInterrupt\<close> and \<^verbatim>\<open>SystemExit\<close> derive from \<^verbatim>\<open>BaseException\<close>
  only; every other exception here derives from \<^verbatim>\<open>Exception\<close>. \<open>OtherException\<close> stands for
  any further subclass of \<^verbatim>\<open>Exception\<close>, by name.
\<close>

datatype exn =
    ExecutionException string
  | LaunchException string
  | KeyboardInterrupt
  | SystemExit
  | OtherException string

text \<open>What \<^verbatim>\<open>except Exception\<close> catches.\<close>

fun is_Exception :: "exn \<Rightarrow> bool" where
  "is_Exception (ExecutionException m) = True"
| "is_Exception (LaunchException m) = True"
| "is_Exception KeyboardInterrupt = False"
| "is_Exception SystemExit = False"
| "is_Exception (OtherException n) = True"

text \<open>What \<^verbatim>\<open>except KeyboardInterrupt\<close> catches.\<close>

fun is_KeyboardInterrupt :: "exn \<Rightarrow> bool" where
  "is_KeyboardInterrupt KeyboardInterrupt = True"
| "is_KeyboardInterrupt e = False"

subsection \<open>Values, dictionaries, handles, backends\<close>

datatype pyval = PyStr string | PyInt int | PyBool bool | PyNone

type_synonym pydict = "string \<rightharpoonup> pyval"

text \<open>
  A submitted run (\<^verbatim>\<open>AbstractRun\<close>): \<^verbatim>\<open>wait()\<close> returns a boolean or raises, \<^verbatim>\<open>cancel()\<close>
  returns or raises. \<^verbatim>\<open>launch.py\<close> calls each at most once per handle, so one outcome per
  method describes the handle.
\<close>

record submitted_run =
  handle_id :: nat
  wait_outcome :: "exn + bool"
  cancel_outcome :: "exn + unit"

text \<open>The runner configuration built by \<^verbatim>\<open>_run\<close>: the two keys it stores.\<close>

record runner_config =
  cfg_synchronous :: "bool option"
  cfg_docker_args :: pydict

datatype 'p backend = Backend (backend_run: "'p \<Rightarrow> exn + submitted_run")

text \<open>The nine arguments \<^verbatim>\<open>_run\<close> hands to \<^verbatim>\<open>construct_run_spec\<close>, in its order.\<close>

record spec_args =
  sa_uri :: string
  sa_experiment_name :: "string option"
  sa_wandb_project :: "string option"
  sa_wandb_entity :: "string option"
  sa_docker_image :: "string option"
  sa_entry_point :: "string option"
  sa_version :: "string option"
  sa_parameters :: "pydict option"
  sa_launch_config :: pydict

text \<open>The arguments of \<^verbatim>\<open>run\<close>; \<open>docker_args\<close> is a reference into the heap, or \<^verbatim>\<open>None\<close>.\<close>

record launch_args =
  uri :: string
  entry_point :: "string option"
  version :: "string option"
  parameters :: "pydict option"
  docker_args :: "nat option"
  experiment_name :: "string option"
  resource :: string
  wandb_project :: "string option"
  wandb_entity :: "string option"
  docker_image :: "string option"
  config :: "pydict option"
  synchronous :: "bool option"

subsection \<open>Environment, trace and state\<close>

record ('s, 'p) env =
  construct_run_spec :: "spec_args \<Rightarrow> exn + 's"
  create_project_from_spec :: "'s \<Rightarrow> exn + 'p"
  fetch_and_validate_project :: "'p \<Rightarrow> exn + 'p"
  load_backend :: "string \<Rightarrow> runner_config \<Rightarrow> exn + 'p backend option"
  WANDB_RUNNERS :: "(string \<times> (runner_config \<Rightarrow> 'p backend)) list"
  is_wandb_local_uri :: "string \<Rightarrow> bool"
  base_url :: string
  sys_platform :: string

datatype event =
    Call_construct_run_spec
  | Call_create_project_from_spec
  | Call_fetch_and_validate_project
  | Call_load_backend string
  | Call_backend_run
  | Call_wait nat
  | Call_cancel nat
  | Log_info string
  | Log_error string
  | Print_exception exn

record state =
  heap :: "pydict list"
  trace :: "event list"

definition emit :: "event \<Rightarrow> state \<Rightarrow> state" where
  "emit ev st = st\<lparr>trace := trace st @ [ev]\<rparr>"

text \<open>\<^verbatim>\<open>d[k] = v\<close> on the dictionary at address \<open>a\<close>.\<close>

definition dict_set :: "nat \<Rightarrow> string \<Rightarrow> pyval \<Rightarrow> state \<Rightarrow> state" where
  "dict_set a k v st = st\<lparr>heap := (heap st)[a := (heap st ! a)(k \<mapsto> v)]\<rparr>"

text \<open>\<^verbatim>\<open>sep.join(xs)\<close>.\<close>

fun join :: "string \<Rightarrow> string list \<Rightarrow> string" where
  "join sep [] = []"
| "join sep [x] = x"
| "join sep (x # y # xs) = x @ sep @ join sep (y # xs)"

subsection \<open>push_to_queue (lines 25-31)\<close>

text \<open>
  The first argument is \<^verbatim>\<open>api.push_to_run_queue\<close>; its result is any Python value,
  \<^verbatim>\<open>None\<close> included, hence an option.
\<close>

definition push_to_queue ::
  "(string \<Rightarrow> pydict \<Rightarrow> exn + 'r option) \<Rightarrow> string \<Rightarrow> pydict \<Rightarrow> event list
     \<Rightarrow> (exn + 'r option) \<times> event list" where
  "push_to_queue push_to_run_queue queue run_spec tr =
     (case push_to_run_queue queue run_spec of
        Inl e \<Rightarrow> if is_Exception e then (Inr None, tr @ [Print_exception e]) else (Inl e, tr)
      | Inr res \<Rightarrow> (Inr res, tr))"

subsection \<open>_run (lines 39-87)\<close>

definition unavailable_backend_message :: "string \<Rightarrow> string list \<Rightarrow> string" where
  "unavailable_backend_message res names =
     ''Unavailable backend '' @ res @ '', available backends: '' @ join '', '' names"

definition run_impl ::
  "('s, 'p) env \<Rightarrow> spec_args \<Rightarrow> nat \<Rightarrow> string \<Rightarrow> bool option \<Rightarrow> state
     \<Rightarrow> (exn + submitted_run) \<times> state" where
  "run_impl env sa dargs res sync st =
     (let st1 = emit Call_construct_run_spec st in
      case construct_run_spec env sa of
        Inl e \<Rightarrow> (Inl e, st1)
      | Inr run_spec \<Rightarrow>
         (let st2 = emit Call_create_project_from_spec st1 in
          case create_project_from_spec env run_spec of
            Inl e \<Rightarrow> (Inl e, st2)
          | Inr project \<Rightarrow>
             (let st3 = emit Call_fetch_and_validate_project st2 in
              case fetch_and_validate_project env project of
                Inl e \<Rightarrow> (Inl e, st3)
              | Inr project' \<Rightarrow>
                 (let rc = \<lparr>cfg_synchronous = sync, cfg_docker_args = heap st3 ! dargs\<rparr>;
                      st4 = emit (Call_load_backend res) st3
                  in case load_backend env res rc of
                       Inl e \<Rightarrow> (Inl e, st4)
                     | Inr None \<Rightarrow>
                         (Inl (ExecutionException
                            (unavailable_backend_message res (map fst (WANDB_RUNNERS env)))), st4)
                     | Inr (Some b) \<Rightarrow>
                         (let st5 = emit Call_backend_run st4 in
                          case backend_run b project' of
                            Inl e \<Rightarrow> (Inl e, st5)
                          | Inr h \<Rightarrow> (Inr h, st5))))))"

subsection \<open>_wait_for (lines 194-206)\<close>

definition wait_for :: "submitted_run \<Rightarrow> state \<Rightarrow> (exn + unit) \<times> state" where
  "wait_for h st =
     (let st1 = emit (Call_wait (handle_id h)) st;
          body = (case wait_outcome h of
                    Inl e \<Rightarrow> (Inl e, st1)
                  | Inr True \<Rightarrow> (Inr (), emit (Log_info ''=== Submitted run succeeded ==='') st1)
                  | Inr False \<Rightarrow> (Inl (ExecutionException ''Submitted run failed''), st1))
      in case body of
           (Inr u, st2) \<Rightarrow> (Inr u, st2)
         | (Inl e, st2) \<Rightarrow>
             if is_KeyboardInterrupt e then
               (let st3 = emit (Call_cancel (handle_id h))
                            (emit (Log_error ''=== Submitted run interrupted, cancelling run ==='') st2)
                in case cancel_outcome h of
                     Inl e' \<Rightarrow> (Inl e', st3)
                   | Inr u \<Rightarrow> (Inl e, st3))
             else (Inl e, st2))"

subsection \<open>run (lines 90-191)\<close>

text \<open>Lines 158-166: the default dictionary and the injected network arguments.\<close>

definition inject_docker_args :: "('s, 'p) env \<Rightarrow> nat option \<Rightarrow> state \<Rightarrow> nat \<times> state" where
  "inject_docker_args env dargs st =
     (let (a, st1) = (case dargs of
                        None \<Rightarrow> (length (heap st), st\<lparr>heap := heap st @ [Map.empty]\<rparr>)
                      | Some p \<Rightarrow> (p, st))
      in if is_wandb_local_uri env (base_url env) then
           (let st2 = (if sys_platform env = ''win32''
                       then dict_set a ''net'' (PyStr ''host'') st1
                       else dict_set a ''network'' (PyStr ''host'') st1);
                st3 = (if sys_platform env = ''linux'' \<or> sys_platform env = ''linux2''
                       then dict_set a ''add-host'' (PyStr ''host.docker.internal:host-gateway'') st2
                       else st2)
            in (a, st3))
         else (a, st1))"

definition spec_args_of :: "launch_args \<Rightarrow> spec_args" where
  "spec_args_of args =
     \<lparr>sa_uri = uri args,
      sa_experiment_name = experiment_name args,
      sa_wandb_project = wandb_project args,
      sa_wandb_entity = wandb_entity args,
      sa_docker_image = docker_image args,
      sa_entry_point = entry_point args,
      sa_version = version args,
      sa_parameters = parameters args,
      sa_launch_config = (case config args of None \<Rightarrow> Map.empty | Some c \<Rightarrow> c)\<rparr>"

definition run :: "('s, 'p) env \<Rightarrow> launch_args \<Rightarrow> state \<Rightarrow> (exn + submitted_run) \<times> state" where
  "run env args st =
     (let (a, st1) = inject_docker_args env (docker_args args) st;
          (r, st2) = run_impl env (spec_args_of args) a (resource args) (synchronous args) st1
      in case r of
           Inl e \<Rightarrow> (Inl e, st2)
         | Inr h \<Rightarrow>
             if synchronous args = Some True then
               (case wait_for h st2 of
                  (Inl e, st3) \<Rightarrow> (Inl e, st3)
                | (Inr u, st3) \<Rightarrow> (Inr h, st3))
             else (Inl (LaunchException ''Non synchronous mode not supported''), st2))"

subsection \<open>The backend loader and the documented platform table\<close>

text \<open>
  Modelled from the spec: \<^verbatim>\<open>loader.load_backend\<close> is not part of the module under study.
  Section 4.3 of the specification describes it: the registry is a static mapping
  from resource name to backend constructor, lookup is case-exact, the backend found is
  constructed with the shared configuration, and an unknown name yields null, not an error.
\<close>

definition loader_load_backend ::
  "(string \<times> (runner_config \<Rightarrow> 'p backend)) list \<Rightarrow> string \<Rightarrow> runner_config
     \<Rightarrow> exn + 'p backend option" where
  "loader_load_backend runners name rc =
     Inr (case map_of runners name of None \<Rightarrow> None | Some mk \<Rightarrow> Some (mk rc))"

text \<open>
  The platform table as the specification documents it (section 8), for the two platforms
  it names; it is compared below with what lines 160-166 write.
\<close>

definition documented_platform_table :: "string \<Rightarrow> (string \<times> pyval) list option" where
  "documented_platform_table plat =
     (if plat = ''linux'' then
        Some [(''network'', PyStr ''host''),
              (''add-host'', PyStr ''host.docker.internal:host-gateway'')]
      else if plat = ''win32'' then Some [(''net'', PyStr ''host'')]
      else None)"

subsection \<open>Observations on a call of run\<close>

text \<open>
  Lines 158-185 of \<^verbatim>\<open>run\<close>: everything up to and including the call of \<^verbatim>\<open>_run\<close>, that is,
  the submission; \<open>run_submit\<close> below shows that \<open>run\<close> is this followed by the final
  conditional of lines 187-191.
\<close>

definition submit :: "('s, 'p) env \<Rightarrow> launch_args \<Rightarrow> state \<Rightarrow> (exn + submitted_run) \<times> state" where
  "submit env args st =
     (let (a, st1) = inject_docker_args env (docker_args args) st
      in run_impl env (spec_args_of args) a (resource args) (synchronous args) st1)"

text \<open>The calls made between two states.\<close>

definition new_events :: "state \<Rightarrow> state \<Rightarrow> event list" where
  "new_events st st' = drop (length (trace st)) (trace st')"

text \<open>The five calls of a complete pass through \<^verbatim>\<open>_run\<close>, in program order.\<close>

definition stages :: "string \<Rightarrow> event list" where
  "stages res =
     [Call_construct_run_spec, Call_create_project_from_spec,
      Call_fetch_and_validate_project, Call_load_backend res, Call_backend_run]"

text \<open>The dictionary \<^verbatim>\<open>docker_args\<close> refers to: its address, its content before and after.\<close>

definition docker_addr :: "launch_args \<Rightarrow> state \<Rightarrow> nat" where
  "docker_addr args st = (case docker_args args of None \<Rightarrow> length (heap st) | Some p \<Rightarrow> p)"

definition docker_before :: "launch_args \<Rightarrow> state \<Rightarrow> pydict" where
  "docker_before args st = (case docker_args args of None \<Rightarrow> Map.empty | Some p \<Rightarrow> heap st ! p)"

definition docker_after :: "('s, 'p) env \<Rightarrow> launch_args \<Rightarrow> state \<Rightarrow> pydict" where
  "docker_after env args st = heap (snd (run env args st)) ! docker_addr args st"

text \<open>The reference is live: \<^verbatim>\<open>None\<close>, or the address of an object of the heap.\<close>

definition valid_ref :: "launch_args \<Rightarrow> state \<Rightarrow> bool" where
  "valid_ref args st = (case docker_args args of None \<Rightarrow> True | Some p \<Rightarrow> p < length (heap st))"

text \<open>The entries lines 161-166 store, as one dictionary.\<close>

definition injected :: "string \<Rightarrow> pydict" where
  "injected plat =
     (if plat = ''win32'' then [''net'' \<mapsto> PyStr ''host''] else [''network'' \<mapsto> PyStr ''host''])
     ++ (if plat = ''linux'' \<or> plat = ''linux2''
         then [''add-host'' \<mapsto> PyStr ''host.docker.internal:host-gateway''] else Map.empty)"


subsection \<open>A stub backend for concrete runs\<close>

text \<open>
  The scenario of the specification: a project at \<^verbatim>\<open>/local/proj\<close>, one registered backend
  \<^verbatim>\<open>local\<close> whose submission always succeeds and whose handle waits with the given outcome.
\<close>

definition stub_handle :: "exn + bool \<Rightarrow> submitted_run" where
  "stub_handle w = \<lparr>handle_id = 1, wait_outcome = w, cancel_outcome = Inr ()\<rparr>"

definition stub_runners :: "exn + bool \<Rightarrow> (string \<times> (runner_config \<Rightarrow> string backend)) list" where
  "stub_runners w = [(''local'', \<lambda>rc. Backend (\<lambda>p. Inr (stub_handle w)))]"

definition stub_env :: "string \<Rightarrow> bool \<Rightarrow> exn + bool \<Rightarrow> (string, string) env" where
  "stub_env plat loc w =
     \<lparr>construct_run_spec = (\<lambda>sa. Inr (sa_uri sa)),
      create_project_from_spec = (\<lambda>s. Inr s),
      fetch_and_validate_project = (\<lambda>p. Inr p),
      load_backend = loader_load_backend (stub_runners w),
      WANDB_RUNNERS = stub_runners w,
      is_wandb_local_uri = (\<lambda>u. loc),
      base_url = ''http://localhost:8080'',
      sys_platform = plat\<rparr>"

definition stub_args :: "string \<Rightarrow> bool option \<Rightarrow> nat option \<Rightarrow> launch_args" where
  "stub_args res sync d =
     \<lparr>uri = ''/local/proj'', entry_point = None, version = None, parameters = None,
      docker_args = d, experiment_name = None, resource = res, wandb_project = None,
      wandb_entity = None, docker_image = None, config = None, synchronous = sync\<rparr>"

definition empty_state :: state where
  "empty_state = \<lparr>heap = [], trace = []\<rparr>"

text \<open>A heap holding one dictionary the caller owns, at address 0.\<close>

definition caller_state :: state where
  "caller_state =
     \<lparr>heap = [[''network'' \<mapsto> PyStr ''bridge'', ''gpus'' \<mapsto> PyStr ''all'']], trace = []\<rparr>"

text \<open>
  The same scenario with a handle whose \<^verbatim>\<open>wait()\<close> is interrupted and whose \<^verbatim>\<open>cancel()\<close>
  raises, as a backend does when it cannot reach the job it should terminate.
\<close>

definition raising_cancel_handle :: submitted_run where
  "raising_cancel_handle =
     \<lparr>handle_id = 2, wait_outcome = Inl KeyboardInterrupt,
      cancel_outcome = Inl (OtherException ''DockerException'')\<rparr>"

definition raising_cancel_runners :: "(string \<times> (runner_config \<Rightarrow> string backend)) list" where
  "raising_cancel_runners = [(''local'', \<lambda>rc. Backend (\<lambda>p. Inr raising_cancel_handle))]"

definition raising_cancel_env :: "(string, string) env" where
  "raising_cancel_env =
     \<lparr>construct_run_spec = (\<lambda>sa. Inr (sa_uri sa)),
      create_project_from_spec = (\<lambda>s. Inr s),
      fetch_and_validate_project = (\<lambda>p. Inr p),
      load_backend = loader_load_backend raising_cancel_runners,
      WANDB_RUNNERS = raising_cancel_runners,
      is_wandb_local_uri = (\<lambda>u. False),
      base_url = ''https://api.wandb.ai'',
      sys_platform = ''linux''\<rparr>"

section \<open>Properties\<close>

subsection \<open>Auxiliary facts\<close>

lemma run_submit:
  "run env args st =
     (case submit env args st of
        (Inl e, st2) \<Rightarrow> (Inl e, st2)
      | (Inr h, st2) \<Rightarrow>
          if synchronous args = Some True then
            (case wait_for h st2 of
               (Inl e, st3) \<Rightarrow> (Inl e, st3)
             | (Inr u, st3) \<Rightarrow> (Inr h, st3))
          else (Inl (LaunchException ''Non synchronous mode not supported''), st2))"
  by (simp add: run_def submit_def split: prod.splits)

lemma run_impl_Inr:
  "run_impl env sa a res sync st = (Inr h, st') \<Longrightarrow> st' = st\<lparr>trace := trace st @ stages res\<rparr>"
  by (auto simp: run_impl_def emit_def stages_def Let_def split: sum.splits option.splits)

lemma run_impl_heap: "heap (snd (run_impl env sa a res sync st)) = heap st"
  by (auto simp: run_impl_def emit_def Let_def split: sum.splits option.splits)

lemma inject_trace: "trace (snd (inject_docker_args env d st)) = trace st"
  by (auto simp: inject_docker_args_def dict_set_def Let_def split: option.splits)

lemma submit_Inr:
  "submit env args st = (Inr h, st2) \<Longrightarrow> trace st2 = trace st @ stages (resource args)"
  using inject_trace[of env "docker_args args" st]
  by (auto simp: submit_def split: prod.splits dest!: run_impl_Inr)

lemma wait_for_True:
  "wait_outcome h = Inr True \<Longrightarrow>
   wait_for h st =
     (Inr (), emit (Log_info ''=== Submitted run succeeded ==='') (emit (Call_wait (handle_id h)) st))"
  by (simp add: wait_for_def)

lemma wait_for_False:
  "wait_outcome h = Inr False \<Longrightarrow>
   wait_for h st =
     (Inl (ExecutionException ''Submitted run failed''), emit (Call_wait (handle_id h)) st)"
  by (simp add: wait_for_def)

lemma wait_for_raise:
  "wait_outcome h = Inl e \<Longrightarrow> \<not> is_KeyboardInterrupt e \<Longrightarrow>
   wait_for h st = (Inl e, emit (Call_wait (handle_id h)) st)"
  by (simp add: wait_for_def)

lemma wait_for_interrupt:
  "wait_outcome h = Inl e \<Longrightarrow> is_KeyboardInterrupt e \<Longrightarrow>
   wait_for h st =
     ((case cancel_outcome h of Inl e' \<Rightarrow> Inl e' | Inr u \<Rightarrow> Inl e),
      emit (Call_cancel (handle_id h))
        (emit (Log_error ''=== Submitted run interrupted, cancelling run ==='')
          (emit (Call_wait (handle_id h)) st)))"
  by (simp add: wait_for_def Let_def split: sum.splits)

lemma stub_submit:
  "submit (stub_env plat False w) (stub_args ''local'' sync None) empty_state =
     (Inr (stub_handle w), \<lparr>heap = [Map.empty], trace = stages ''local''\<rparr>)"
  by (simp add: submit_def inject_docker_args_def run_impl_def emit_def stub_env_def
      stub_args_def stub_runners_def loader_load_backend_def empty_state_def stages_def
      spec_args_of_def Let_def)

lemma raising_cancel_submit:
  "submit raising_cancel_env (stub_args ''local'' sync None) empty_state =
     (Inr raising_cancel_handle, \<lparr>heap = [Map.empty], trace = stages ''local''\<rparr>)"
  by (simp add: submit_def inject_docker_args_def run_impl_def emit_def raising_cancel_env_def
      stub_args_def raising_cancel_runners_def loader_load_backend_def empty_state_def stages_def
      spec_args_of_def Let_def)

lemma raising_cancel_handle_sel:
  "handle_id raising_cancel_handle = 2"
  "wait_outcome raising_cancel_handle = Inl KeyboardInterrupt"
  "cancel_outcome raising_cancel_handle = Inl (OtherException ''DockerException'')"
  by (simp_all add: raising_cancel_handle_def)

lemma stub_sync: "synchronous (stub_args res sync d) = sync"
  by (simp add: stub_args_def)

lemma stub_resource: "resource (stub_args res sync d) = res"
  by (simp add: stub_args_def)

lemma stub_handle_sel:
  "handle_id (stub_handle w) = 1" "wait_outcome (stub_handle w) = w"
  "cancel_outcome (stub_handle w) = Inr ()"
  by (simp_all add: stub_handle_def)

lemma empty_trace: "trace empty_state = []"
  by (simp add: empty_state_def)

lemma stub_valid_None: "valid_ref (stub_args res sync None) st"
  by (simp add: valid_ref_def stub_args_def)

lemma stub_before_None: "docker_before (stub_args res sync None) st = Map.empty"
  by (simp add: docker_before_def stub_args_def)

lemma stub_env_sel:
  "is_wandb_local_uri (stub_env plat loc w) u = loc"
  "sys_platform (stub_env plat loc w) = plat"
  by (simp_all add: stub_env_def)

subsection \<open>Outcome of a synchronous run\<close>

text \<open>
  Claim C3. In a synchronous \<^verbatim>\<open>run\<close> whose backend submission succeeded with handle \<open>h\<close>:
  when \<^verbatim>\<open>h.wait()\<close> returns false, \<^verbatim>\<open>run\<close> raises \<^verbatim>\<open>ExecutionException("Submitted run failed")\<close>;
  when it returns true, \<^verbatim>\<open>run\<close> returns \<open>h\<close> and raises nothing.
\<close>

theorem run_wait_result:
  assumes "synchronous args = Some True" and "fst (submit env args st) = Inr h"
  shows "(wait_outcome h = Inr False \<longrightarrow>
            fst (run env args st) = Inl (ExecutionException ''Submitted run failed''))
       \<and> (wait_outcome h = Inr True \<longrightarrow> fst (run env args st) = Inr h)"
proof -
  obtain st2 where s: "submit env args st = (Inr h, st2)"
    using assms(2) by (cases "submit env args st") simp
  show ?thesis
    using assms(1) s by (simp add: run_submit wait_for_True wait_for_False)
qed

theorem run_wait_result_witness:
  "synchronous (stub_args ''local'' (Some True) None) = Some True
   \<and> fst (submit (stub_env ''linux'' False (Inr False)) (stub_args ''local'' (Some True) None) empty_state)
       = Inr (stub_handle (Inr False))
   \<and> wait_outcome (stub_handle (Inr False)) = Inr False
   \<and> fst (run (stub_env ''linux'' False (Inr False)) (stub_args ''local'' (Some True) None) empty_state)
       = Inl (ExecutionException ''Submitted run failed'')
   \<and> fst (submit (stub_env ''linux'' False (Inr True)) (stub_args ''local'' (Some True) None) empty_state)
       = Inr (stub_handle (Inr True))
   \<and> wait_outcome (stub_handle (Inr True)) = Inr True
   \<and> fst (run (stub_env ''linux'' False (Inr True)) (stub_args ''local'' (Some True) None) empty_state)
       = Inr (stub_handle (Inr True))"
proof -
  have sync: "synchronous (stub_args ''local'' (Some True) None) = Some True"
    by (simp add: stub_args_def)
  have sub: "fst (submit (stub_env ''linux'' False w) (stub_args ''local'' (Some True) None) empty_state)
       = Inr (stub_handle w)" for w
    by (simp add: stub_submit)
  have w: "wait_outcome (stub_handle w) = w" for w
    by (simp add: stub_handle_def)
  show ?thesis
    using run_wait_result [OF sync sub [of "Inr False"]] run_wait_result [OF sync sub [of "Inr True"]]
      sync sub w
    by simp
qed

subsection \<open>Order of the pipeline\<close>

lemma wait_for_Inr:
  "wait_for h st = (Inr u, st') \<Longrightarrow>
   wait_outcome h = Inr True \<and>
   st' = emit (Log_info ''=== Submitted run succeeded ==='') (emit (Call_wait (handle_id h)) st)"
  by (auto simp: wait_for_def Let_def split: sum.splits bool.splits if_splits)

lemma run_Inr:
  assumes "run env args st = (Inr h, st')"
  shows "synchronous args = Some True
       \<and> trace st' = trace st @ stages (resource args) @
           [Call_wait (handle_id h), Log_info ''=== Submitted run succeeded ==='']
       \<and> wait_outcome h = Inr True"
  using assms
  apply (simp add: run_submit split: prod.splits sum.splits if_splits)
  apply (auto dest!: submit_Inr wait_for_Inr simp: emit_def)
  done

text \<open>
  Claim C8. Every call of \<^verbatim>\<open>run\<close> that returns a handle is synchronous and has made, in this
  order and nothing else: \<^verbatim>\<open>construct_run_spec\<close> (RunSpec Builder), \<^verbatim>\<open>create_project_from_spec\<close>
  then \<^verbatim>\<open>fetch_and_validate_project\<close> (Project Resolver), \<^verbatim>\<open>load_backend\<close> (Backend Loader),
  \<^verbatim>\<open>backend.run\<close> (Backend Runner), and only then \<^verbatim>\<open>wait()\<close> on the returned handle.
\<close>

theorem run_stage_order:
  assumes "fst (run env args st) = Inr h"
  shows "synchronous args = Some True
       \<and> new_events st (snd (run env args st)) =
           [Call_construct_run_spec, Call_create_project_from_spec,
            Call_fetch_and_validate_project, Call_load_backend (resource args), Call_backend_run,
            Call_wait (handle_id h), Log_info ''=== Submitted run succeeded ==='']"
proof -
  obtain st' where r: "run env args st = (Inr h, st')"
    using assms by (cases "run env args st") simp
  from run_Inr [OF r] show ?thesis
    by (simp add: r new_events_def stages_def)
qed

theorem run_stage_order_witness:
  "fst (run (stub_env ''linux'' False (Inr True)) (stub_args ''local'' (Some True) None) empty_state)
     = Inr (stub_handle (Inr True))
   \<and> new_events empty_state
       (snd (run (stub_env ''linux'' False (Inr True)) (stub_args ''local'' (Some True) None) empty_state))
     = [Call_construct_run_spec, Call_create_project_from_spec,
        Call_fetch_and_validate_project, Call_load_backend ''local'', Call_backend_run,
        Call_wait 1, Log_info ''=== Submitted run succeeded ==='']"
proof -
  have r: "fst (run (stub_env ''linux'' False (Inr True)) (stub_args ''local'' (Some True) None) empty_state)
     = Inr (stub_handle (Inr True))"
  proof -
    have "synchronous (stub_args ''local'' (Some True) None) = Some True"
      by (simp add: stub_args_def)
    moreover have "wait_outcome (stub_handle (Inr True)) = Inr True"
      by (simp add: stub_handle_def)
    ultimately show ?thesis
      by (simp add: run_submit stub_submit wait_for_True)
  qed
  have "resource (stub_args ''local'' (Some True) None) = ''local''"
    by (simp add: stub_args_def)
  moreover have "handle_id (stub_handle (Inr True)) = 1"
    by (simp add: stub_handle_def)
  ultimately show ?thesis
    using run_stage_order [OF r] r by simp
qed

subsection \<open>Interrupts and other exceptions leaving wait()\<close>

lemma run_interrupted:
  assumes "synchronous args = Some True" and "submit env args st = (Inr h, st2)"
    and "wait_outcome h = Inl e" and "is_KeyboardInterrupt e"
  shows "run env args st =
     ((case cancel_outcome h of Inl e' \<Rightarrow> Inl e' | Inr u \<Rightarrow> Inl e),
      st2\<lparr>trace := trace st @ stages (resource args) @
         [Call_wait (handle_id h),
          Log_error ''=== Submitted run interrupted, cancelling run ==='',
          Call_cancel (handle_id h)]\<rparr>)"
  using assms submit_Inr [OF assms(2)]
  by (simp add: run_submit wait_for_interrupt emit_def split: sum.splits)

lemma run_wait_raised:
  assumes "synchronous args = Some True" and "submit env args st = (Inr h, st2)"
    and "wait_outcome h = Inl e" and "\<not> is_KeyboardInterrupt e"
  shows "run env args st =
     (Inl e, st2\<lparr>trace := trace st @ stages (resource args) @ [Call_wait (handle_id h)]\<rparr>)"
  using assms submit_Inr [OF assms(2)]
  by (simp add: run_submit wait_for_raise emit_def)

text \<open>
  Claim C1 says that after the interrupt and the call of \<^verbatim>\<open>cancel()\<close> the original interrupt
  is always raised to the caller. The bare \<^verbatim>\<open>raise\<close> of line 206 follows \<^verbatim>\<open>cancel()\<close> in the
  handler: on a handle whose \<^verbatim>\<open>cancel()\<close> raises, \<^verbatim>\<open>cancel()\<close> is called once and \<^verbatim>\<open>run\<close> raises
  the exception of \<^verbatim>\<open>cancel()\<close>, not the \<^verbatim>\<open>KeyboardInterrupt\<close>.
\<close>

theorem interrupt_replaced_counterexample:
  "synchronous (stub_args ''local'' (Some True) None) = Some True
   \<and> fst (submit raising_cancel_env (stub_args ''local'' (Some True) None) empty_state)
       = Inr raising_cancel_handle
   \<and> wait_outcome raising_cancel_handle = Inl KeyboardInterrupt
   \<and> count_list
        (new_events empty_state
           (snd (run raising_cancel_env (stub_args ''local'' (Some True) None) empty_state)))
        (Call_cancel 2) = 1
   \<and> fst (run raising_cancel_env (stub_args ''local'' (Some True) None) empty_state)
       = Inl (OtherException ''DockerException'')
   \<and> fst (run raising_cancel_env (stub_args ''local'' (Some True) None) empty_state)
       \<noteq> Inl KeyboardInterrupt"
proof -
  have "run raising_cancel_env (stub_args ''local'' (Some True) None) empty_state
        = (Inl (OtherException ''DockerException''),
           \<lparr>heap = [Map.empty],
            trace = stages ''local'' @
              [Call_wait 2, Log_error ''=== Submitted run interrupted, cancelling run ==='',
               Call_cancel 2]\<rparr>)"
    using run_interrupted [OF stub_sync raising_cancel_submit raising_cancel_handle_sel(2)]
    by (simp add: raising_cancel_handle_sel stub_resource empty_trace)
  then show ?thesis
    by (simp add: new_events_def stages_def empty_trace stub_sync raising_cancel_submit
        raising_cancel_handle_sel)
qed

text \<open>
  Claim C1, amended. In a synchronous \<^verbatim>\<open>run\<close> whose submission returned handle \<open>h\<close>, a
  \<^verbatim>\<open>KeyboardInterrupt\<close> raised by the blocked \<^verbatim>\<open>h.wait()\<close> is followed by exactly one call of
  \<^verbatim>\<open>h.cancel()\<close>, made after \<^verbatim>\<open>wait\<close>. When \<^verbatim>\<open>cancel()\<close> returns, \<^verbatim>\<open>run\<close> raises the same
  \<^verbatim>\<open>KeyboardInterrupt\<close> to its caller; when \<^verbatim>\<open>cancel()\<close> raises, that exception is the one the
  caller sees.
\<close>

theorem interrupt_cancels_once:
  assumes "synchronous args = Some True" and "fst (submit env args st) = Inr h"
    and "wait_outcome h = Inl KeyboardInterrupt"
  shows "new_events st (snd (run env args st)) =
           [Call_construct_run_spec, Call_create_project_from_spec,
            Call_fetch_and_validate_project, Call_load_backend (resource args), Call_backend_run,
            Call_wait (handle_id h),
            Log_error ''=== Submitted run interrupted, cancelling run ==='',
            Call_cancel (handle_id h)]
       \<and> count_list (new_events st (snd (run env args st))) (Call_cancel (handle_id h)) = 1
       \<and> (cancel_outcome h = Inr () \<longrightarrow> fst (run env args st) = Inl KeyboardInterrupt)
       \<and> (\<forall>e. cancel_outcome h = Inl e \<longrightarrow> fst (run env args st) = Inl e)"
proof -
  obtain st2 where s: "submit env args st = (Inr h, st2)"
    using assms(2) by (cases "submit env args st") simp
  have r: "run env args st =
     ((case cancel_outcome h of Inl e' \<Rightarrow> Inl e' | Inr u \<Rightarrow> Inl KeyboardInterrupt),
      st2\<lparr>trace := trace st @ stages (resource args) @
         [Call_wait (handle_id h),
          Log_error ''=== Submitted run interrupted, cancelling run ==='',
          Call_cancel (handle_id h)]\<rparr>)"
    by (rule run_interrupted [OF assms(1) s assms(3)]) simp
  show ?thesis
    by (simp add: r new_events_def stages_def)
qed

theorem interrupt_cancels_once_witness:
  "synchronous (stub_args ''local'' (Some True) None) = Some True
   \<and> fst (submit (stub_env ''linux'' False (Inl KeyboardInterrupt))
            (stub_args ''local'' (Some True) None) empty_state)
       = Inr (stub_handle (Inl KeyboardInterrupt))
   \<and> wait_outcome (stub_handle (Inl KeyboardInterrupt)) = Inl KeyboardInterrupt
   \<and> cancel_outcome (stub_handle (Inl KeyboardInterrupt)) = Inr ()
   \<and> count_list
        (new_events empty_state
           (snd (run (stub_env ''linux'' False (Inl KeyboardInterrupt))
                  (stub_args ''local'' (Some True) None) empty_state)))
        (Call_cancel 1) = 1
   \<and> fst (run (stub_env ''linux'' False (Inl KeyboardInterrupt))
            (stub_args ''local'' (Some True) None) empty_state)
       = Inl KeyboardInterrupt
   \<and> fst (submit raising_cancel_env (stub_args ''local'' (Some True) None) empty_state)
       = Inr raising_cancel_handle
   \<and> wait_outcome raising_cancel_handle = Inl KeyboardInterrupt
   \<and> cancel_outcome raising_cancel_handle = Inl (OtherException ''DockerException'')
   \<and> count_list
        (new_events empty_state
           (snd (run raising_cancel_env (stub_args ''local'' (Some True) None) empty_state)))
        (Call_cancel 2) = 1
   \<and> fst (run raising_cancel_env (stub_args ''local'' (Some True) None) empty_state)
       = Inl (OtherException ''DockerException'')"
proof -
  have sub: "fst (submit (stub_env ''linux'' False (Inl KeyboardInterrupt))
            (stub_args ''local'' (Some True) None) empty_state)
       = Inr (stub_handle (Inl KeyboardInterrupt))"
    by (simp add: stub_submit)
  have sub': "fst (submit raising_cancel_env (stub_args ''local'' (Some True) None) empty_state)
       = Inr raising_cancel_handle"
    by (simp add: raising_cancel_submit)
  show ?thesis
    using interrupt_cancels_once [OF stub_sync sub stub_handle_sel(2)]
      interrupt_cancels_once [OF stub_sync sub' raising_cancel_handle_sel(2)] sub sub'
    by (simp add: stub_sync stub_handle_sel raising_cancel_handle_sel)
qed

text \<open>
  Claim C6 says that \<^verbatim>\<open>cancel()\<close> is called for any exception leaving the blocked \<^verbatim>\<open>wait()\<close>.
  The handler of \<^verbatim>\<open>_wait_for\<close> is \<^verbatim>\<open>except KeyboardInterrupt\<close>: when \<^verbatim>\<open>wait()\<close> raises a
  \<^verbatim>\<open>RuntimeError\<close>, the exception reaches the caller and \<^verbatim>\<open>cancel()\<close> was never called.
\<close>

theorem cancel_on_any_exception_counterexample:
  "fst (run (stub_env ''linux'' False (Inl (OtherException ''RuntimeError'')))
            (stub_args ''local'' (Some True) None) empty_state)
     = Inl (OtherException ''RuntimeError'')
   \<and> new_events empty_state
        (snd (run (stub_env ''linux'' False (Inl (OtherException ''RuntimeError'')))
               (stub_args ''local'' (Some True) None) empty_state))
     = [Call_construct_run_spec, Call_create_project_from_spec,
        Call_fetch_and_validate_project, Call_load_backend ''local'', Call_backend_run,
        Call_wait 1]
   \<and> count_list
        (new_events empty_state
          (snd (run (stub_env ''linux'' False (Inl (OtherException ''RuntimeError'')))
                 (stub_args ''local'' (Some True) None) empty_state)))
        (Call_cancel 1) = 0"
proof -
  have "run (stub_env ''linux'' False (Inl (OtherException ''RuntimeError'')))
            (stub_args ''local'' (Some True) None) empty_state
        = (Inl (OtherException ''RuntimeError''),
           \<lparr>heap = [Map.empty], trace = stages ''local'' @ [Call_wait 1]\<rparr>)"
    using run_wait_raised [OF stub_sync stub_submit [where plat = "''linux''"] stub_handle_sel(2),
        where e = "OtherException ''RuntimeError''"]
    by (simp add: stub_handle_sel stub_resource empty_state_def)
  then show ?thesis
    by (simp add: new_events_def stages_def empty_state_def)
qed

text \<open>
  Claim C6, amended. When the blocked \<^verbatim>\<open>wait()\<close> of a synchronous \<^verbatim>\<open>run\<close> raises \<open>e\<close>:
  if \<open>e\<close> is a \<^verbatim>\<open>KeyboardInterrupt\<close>, \<^verbatim>\<open>cancel()\<close> is called on the handle exactly once; for
  every other exception no \<^verbatim>\<open>cancel()\<close> is made on any handle and \<open>e\<close> itself reaches the caller.
\<close>

theorem cancel_only_on_interrupt:
  assumes "synchronous args = Some True" and "fst (submit env args st) = Inr h"
    and "wait_outcome h = Inl e"
  shows "(is_KeyboardInterrupt e \<longrightarrow>
            count_list (new_events st (snd (run env args st))) (Call_cancel (handle_id h)) = 1)
       \<and> (\<not> is_KeyboardInterrupt e \<longrightarrow>
            fst (run env args st) = Inl e
            \<and> (\<forall>i. Call_cancel i \<notin> set (new_events st (snd (run env args st)))))"
proof -
  obtain st2 where s: "submit env args st = (Inr h, st2)"
    using assms(2) by (cases "submit env args st") simp
  show ?thesis
  proof (cases "is_KeyboardInterrupt e")
    case True
    from run_interrupted [OF assms(1) s assms(3) True] True show ?thesis
      by (simp add: new_events_def stages_def)
  next
    case False
    from run_wait_raised [OF assms(1) s assms(3) False] False show ?thesis
      by (simp add: new_events_def stages_def)
  qed
qed

theorem cancel_only_on_interrupt_witness:
  "synchronous (stub_args ''local'' (Some True) None) = Some True
   \<and> fst (submit (stub_env ''win32'' False (Inl SystemExit))
            (stub_args ''local'' (Some True) None) empty_state)
       = Inr (stub_handle (Inl SystemExit))
   \<and> wait_outcome (stub_handle (Inl SystemExit)) = Inl SystemExit
   \<and> \<not> is_KeyboardInterrupt SystemExit
   \<and> fst (run (stub_env ''win32'' False (Inl SystemExit))
            (stub_args ''local'' (Some True) None) empty_state) = Inl SystemExit
   \<and> Call_cancel 1 \<notin> set (new_events empty_state
        (snd (run (stub_env ''win32'' False (Inl SystemExit))
               (stub_args ''local'' (Some True) None) empty_state)))
   \<and> fst (submit (stub_env ''win32'' False (Inl KeyboardInterrupt))
            (stub_args ''local'' (Some True) None) empty_state)
       = Inr (stub_handle (Inl KeyboardInterrupt))
   \<and> is_KeyboardInterrupt KeyboardInterrupt
   \<and> count_list (new_events empty_state
        (snd (run (stub_env ''win32'' False (Inl KeyboardInterrupt))
               (stub_args ''local'' (Some True) None) empty_state))) (Call_cancel 1) = 1"
proof -
  have sub: "fst (submit (stub_env ''win32'' False w) (stub_args ''local'' (Some True) None) empty_state)
       = Inr (stub_handle w)" for w
    by (simp add: stub_submit)
  show ?thesis
    using cancel_only_on_interrupt [OF stub_sync sub stub_handle_sel(2), where e = SystemExit]
      cancel_only_on_interrupt [OF stub_sync sub stub_handle_sel(2), where e = KeyboardInterrupt]
      sub
    by (simp add: stub_sync stub_handle_sel)
qed

subsection \<open>Non-synchronous mode\<close>

lemma run_nonsync:
  "synchronous args \<noteq> Some True \<Longrightarrow>
   run env args st =
     ((case fst (submit env args st) of
         Inl e \<Rightarrow> Inl e
       | Inr h \<Rightarrow> Inl (LaunchException ''Non synchronous mode not supported'')),
      snd (submit env args st))"
  by (simp add: run_submit split: prod.splits sum.splits)

text \<open>
  Claim C2. With \<^verbatim>\<open>synchronous=False\<close>, \<^verbatim>\<open>run\<close> should raise its "mode not supported" error
  before any backend submission and without side effects. The code tests \<^verbatim>\<open>synchronous\<close> on
  line 187, after the call of \<^verbatim>\<open>_run\<close> on lines 171-185, while its docstring (lines 130-136)
  describes the mode as returning the handle. On the stub backend the run specification is
  built, the project resolved, the backend loaded and \<^verbatim>\<open>backend.run\<close> called; only then is the
  \<^verbatim>\<open>LaunchException\<close> raised, and the handle of the submitted run is lost.
\<close>

theorem nonsync_submits_then_raises:
  "fst (run (stub_env ''linux'' False (Inr True)) (stub_args ''local'' (Some False) None) empty_state)
     = Inl (LaunchException ''Non synchronous mode not supported'')
   \<and> new_events empty_state
       (snd (run (stub_env ''linux'' False (Inr True)) (stub_args ''local'' (Some False) None) empty_state))
     = [Call_construct_run_spec, Call_create_project_from_spec,
        Call_fetch_and_validate_project, Call_load_backend ''local'', Call_backend_run]"
proof -
  have n: "synchronous (stub_args ''local'' (Some False) None) \<noteq> Some True"
    by (simp add: stub_args_def)
  show ?thesis
    by (simp add: run_nonsync [OF n] stub_submit new_events_def stages_def empty_trace)
qed

subsection \<open>push_to_queue\<close>

text \<open>
  Claim C7 says that \<^verbatim>\<open>push_to_queue\<close> does not raise, whatever exception
  \<^verbatim>\<open>api.push_to_run_queue\<close> raises. The handler is \<^verbatim>\<open>except Exception\<close>, which a
  \<^verbatim>\<open>KeyboardInterrupt\<close> passes: it reaches the caller of \<^verbatim>\<open>push_to_queue\<close>.
\<close>

theorem push_to_queue_interrupt_counterexample:
  "push_to_queue (\<lambda>q s. (Inl KeyboardInterrupt :: exn + nat option)) ''default'' Map.empty []
     = (Inl KeyboardInterrupt, [])"
  by (simp add: push_to_queue_def)

text \<open>
  Claim C7, amended. When \<^verbatim>\<open>api.push_to_run_queue\<close> raises an exception derived from
  \<^verbatim>\<open>Exception\<close>, \<^verbatim>\<open>push_to_queue\<close> prints it, returns \<^verbatim>\<open>None\<close> and raises nothing; an exception
  derived from \<^verbatim>\<open>BaseException\<close> only is raised to the caller; when the call returns,
  \<^verbatim>\<open>push_to_queue\<close> returns its result unchanged.
\<close>

theorem push_to_queue_result:
  "(\<forall>e. push q s = Inl e \<and> is_Exception e \<longrightarrow>
        push_to_queue push q s tr = (Inr None, tr @ [Print_exception e]))
   \<and> (\<forall>e. push q s = Inl e \<and> \<not> is_Exception e \<longrightarrow> push_to_queue push q s tr = (Inl e, tr))
   \<and> (\<forall>res. push q s = Inr res \<longrightarrow> push_to_queue push q s tr = (Inr res, tr))"
  by (simp add: push_to_queue_def)

theorem push_to_queue_result_witness:
  "is_Exception (OtherException ''ConnectionError'')
   \<and> push_to_queue (\<lambda>q s. (Inl (OtherException ''ConnectionError'') :: exn + nat option))
        ''default'' Map.empty []
       = (Inr None, [Print_exception (OtherException ''ConnectionError'')])
   \<and> push_to_queue (\<lambda>q s. (Inr (Some 5) :: exn + nat option)) ''default'' Map.empty []
       = (Inr (Some 5), [])
   \<and> \<not> is_Exception SystemExit
   \<and> push_to_queue (\<lambda>q s. (Inl SystemExit :: exn + nat option)) ''default'' Map.empty []
       = (Inl SystemExit, [])"
  using push_to_queue_result [of "\<lambda>q s. (Inl (OtherException ''ConnectionError'') :: exn + nat option)"
      "''default''" Map.empty "[]"]
    push_to_queue_result [of "\<lambda>q s. (Inr (Some 5) :: exn + nat option)" "''default''" Map.empty "[]"]
    push_to_queue_result [of "\<lambda>q s. (Inl SystemExit :: exn + nat option)" "''default''" Map.empty "[]"]
  by simp

subsection \<open>Injected docker arguments\<close>

lemma run_heap:
  "heap (snd (run env args st)) = heap (snd (inject_docker_args env (docker_args args) st))"
proof -
  obtain a st1 where i: "inject_docker_args env (docker_args args) st = (a, st1)"
    by (cases "inject_docker_args env (docker_args args) st")
  obtain r st2 where s: "run_impl env (spec_args_of args) a (resource args) (synchronous args) st1 = (r, st2)"
    by (cases "run_impl env (spec_args_of args) a (resource args) (synchronous args) st1")
  have h2: "heap st2 = heap st1"
    using run_impl_heap [of env "spec_args_of args" a "resource args" "synchronous args" st1]
    by (simp add: s)
  have w: "heap st3 = heap st2" if "wait_for h st2 = (x, st3)" for h x st3
    using that by (auto simp: wait_for_def emit_def Let_def split: sum.splits bool.splits if_splits)
  show ?thesis
    using h2 by (auto simp: run_def i s split: sum.splits prod.splits dest: w)
qed

lemma inject_heap:
  assumes "valid_ref args st"
  shows "heap (snd (inject_docker_args env (docker_args args) st)) =
           (case docker_args args of None \<Rightarrow> heap st @ [Map.empty] | Some p \<Rightarrow> heap st)
             [docker_addr args st :=
                (if is_wandb_local_uri env (base_url env)
                 then docker_before args st ++ injected (sys_platform env)
                 else docker_before args st)]"
  using assms
  by (auto simp: inject_docker_args_def dict_set_def docker_addr_def docker_before_def
      valid_ref_def injected_def Let_def nth_append split: option.splits)

lemma docker_after_eq:
  assumes "valid_ref args st"
  shows "docker_after env args st =
           (if is_wandb_local_uri env (base_url env)
            then docker_before args st ++ injected (sys_platform env)
            else docker_before args st)"
  using assms
  by (auto simp: docker_after_def run_heap inject_heap docker_addr_def valid_ref_def
      split: option.splits)

lemma documented_table_injected:
  "documented_platform_table plat = Some tbl \<Longrightarrow> map_of tbl = injected plat"
  by (auto simp: documented_platform_table_def injected_def map_add_def fun_eq_iff
      split: if_splits option.splits)

text \<open>
  Claim C5. When the base URL is classified as locally hosted, the dictionary \<^verbatim>\<open>docker_args\<close>
  after \<^verbatim>\<open>run\<close> is the dictionary before it, overridden by exactly the entries of the documented
  platform table (on linux \<^verbatim>\<open>network=host\<close> and \<^verbatim>\<open>add-host=host.docker.internal:host-gateway\<close>,
  on win32 \<^verbatim>\<open>net=host\<close>); when the base URL is not so classified, the dictionary is unchanged:
  nothing is injected.
\<close>

theorem injected_matches_platform_table:
  assumes "valid_ref args st"
  shows "(is_wandb_local_uri env (base_url env) \<longrightarrow>
            (\<forall>tbl. documented_platform_table (sys_platform env) = Some tbl \<longrightarrow>
               docker_after env args st = docker_before args st ++ map_of tbl))
       \<and> (\<not> is_wandb_local_uri env (base_url env) \<longrightarrow>
            docker_after env args st = docker_before args st)"
  by (simp add: docker_after_eq [OF assms] documented_table_injected)

theorem injected_matches_platform_table_witness:
  "valid_ref (stub_args ''local'' (Some True) None) empty_state
   \<and> is_wandb_local_uri (stub_env ''linux'' True (Inr True)) (base_url (stub_env ''linux'' True (Inr True)))
   \<and> documented_platform_table (sys_platform (stub_env ''linux'' True (Inr True)))
       = Some [(''network'', PyStr ''host''),
               (''add-host'', PyStr ''host.docker.internal:host-gateway'')]
   \<and> docker_after (stub_env ''linux'' True (Inr True)) (stub_args ''local'' (Some True) None) empty_state
       = [''add-host'' \<mapsto> PyStr ''host.docker.internal:host-gateway'', ''network'' \<mapsto> PyStr ''host'']
   \<and> documented_platform_table (sys_platform (stub_env ''win32'' True (Inr True)))
       = Some [(''net'', PyStr ''host'')]
   \<and> docker_after (stub_env ''win32'' True (Inr True)) (stub_args ''local'' (Some True) None) empty_state
       = [''net'' \<mapsto> PyStr ''host'']
   \<and> \<not> is_wandb_local_uri (stub_env ''linux'' False (Inr True)) (base_url (stub_env ''linux'' False (Inr True)))
   \<and> docker_after (stub_env ''linux'' False (Inr True)) (stub_args ''local'' (Some True) None) empty_state
       = Map.empty"
  using injected_matches_platform_table [OF stub_valid_None,
      where env = "stub_env ''linux'' True (Inr True)"]
    injected_matches_platform_table [OF stub_valid_None,
      where env = "stub_env ''win32'' True (Inr True)"]
    injected_matches_platform_table [OF stub_valid_None,
      where env = "stub_env ''linux'' False (Inr True)"]
  by (simp add: stub_valid_None stub_before_None stub_env_sel documented_platform_table_def)

text \<open>
  Claim C9. With a base URL classified as locally hosted, on every platform string other than
  \<^verbatim>\<open>win32\<close> (for instance \<^verbatim>\<open>darwin\<close>) the dictionary \<^verbatim>\<open>docker_args\<close> holds \<^verbatim>\<open>network=host\<close>
  after \<^verbatim>\<open>run\<close>, and on \<^verbatim>\<open>win32\<close> it holds \<^verbatim>\<open>net=host\<close>: an entry is injected on every platform.
\<close>

theorem network_host_unless_win32:
  assumes "valid_ref args st" and "is_wandb_local_uri env (base_url env)"
  shows "(sys_platform env \<noteq> ''win32'' \<longrightarrow>
            docker_after env args st ''network'' = Some (PyStr ''host''))
       \<and> (sys_platform env = ''win32'' \<longrightarrow>
            docker_after env args st ''net'' = Some (PyStr ''host''))"
  using assms(2) by (simp add: docker_after_eq [OF assms(1)] injected_def map_add_def)

theorem network_host_unless_win32_witness:
  "valid_ref (stub_args ''local'' (Some True) None) empty_state
   \<and> is_wandb_local_uri (stub_env ''darwin'' True (Inr True)) (base_url (stub_env ''darwin'' True (Inr True)))
   \<and> sys_platform (stub_env ''darwin'' True (Inr True)) \<noteq> ''win32''
   \<and> docker_after (stub_env ''darwin'' True (Inr True)) (stub_args ''local'' (Some True) None) empty_state
        ''network'' = Some (PyStr ''host'')
   \<and> sys_platform (stub_env ''win32'' True (Inr True)) = ''win32''
   \<and> docker_after (stub_env ''win32'' True (Inr True)) (stub_args ''local'' (Some True) None) empty_state
        ''net'' = Some (PyStr ''host'')"
proof -
  have l: "is_wandb_local_uri (stub_env plat True (Inr True)) (base_url (stub_env plat True (Inr True)))"
    for plat
    by (simp add: stub_env_sel)
  show ?thesis
    using network_host_unless_win32 [OF stub_valid_None l [of "''darwin''"]]
      network_host_unless_win32 [OF stub_valid_None l [of "''win32''"]]
    by (simp add: stub_valid_None stub_env_sel)
qed

text \<open>
  Claim C10. When the caller passes a dictionary (address \<open>p\<close>) and the base URL is classified
  as locally hosted, \<^verbatim>\<open>run\<close> writes into that very object: no dictionary is allocated, every
  other object of the heap is as before, the entries injected for the platform replace
  whatever the caller had under \<^verbatim>\<open>network\<close>, \<^verbatim>\<open>net\<close> or \<^verbatim>\<open>add-host\<close>, and every other key of
  the caller's dictionary keeps its value.
\<close>

theorem caller_mapping_mutated_in_place:
  assumes "docker_args args = Some p" and "p < length (heap st)"
    and "is_wandb_local_uri env (base_url env)"
  shows "length (heap (snd (run env args st))) = length (heap st)
       \<and> (\<forall>q. q \<noteq> p \<longrightarrow> heap (snd (run env args st)) ! q = heap st ! q)
       \<and> (sys_platform env = ''win32'' \<longrightarrow>
            heap (snd (run env args st)) ! p = (heap st ! p)(''net'' \<mapsto> PyStr ''host''))
       \<and> (sys_platform env = ''linux'' \<or> sys_platform env = ''linux2'' \<longrightarrow>
            heap (snd (run env args st)) ! p =
              (heap st ! p)(''network'' \<mapsto> PyStr ''host'',
                            ''add-host'' \<mapsto> PyStr ''host.docker.internal:host-gateway''))
       \<and> (sys_platform env \<notin> {''win32'', ''linux'', ''linux2''} \<longrightarrow>
            heap (snd (run env args st)) ! p = (heap st ! p)(''network'' \<mapsto> PyStr ''host''))
       \<and> (\<forall>k. k \<notin> {''network'', ''net'', ''add-host''} \<longrightarrow>
            (heap (snd (run env args st)) ! p) k = (heap st ! p) k)"
proof -
  have v: "valid_ref args st"
    using assms(1,2) by (simp add: valid_ref_def)
  have h: "heap (snd (run env args st)) =
             (heap st)[p := heap st ! p ++ injected (sys_platform env)]"
    using inject_heap [OF v, of env] assms
    by (simp add: run_heap docker_addr_def docker_before_def)
  show ?thesis
    using assms(2) by (auto simp: h injected_def map_add_def)
qed

theorem caller_mapping_mutated_in_place_witness:
  "docker_args (stub_args ''local'' (Some True) (Some 0)) = Some 0
   \<and> 0 < length (heap caller_state)
   \<and> is_wandb_local_uri (stub_env ''linux'' True (Inr True)) (base_url (stub_env ''linux'' True (Inr True)))
   \<and> sys_platform (stub_env ''linux'' True (Inr True)) = ''linux''
   \<and> (heap caller_state ! 0) ''network'' = Some (PyStr ''bridge'')
   \<and> heap (snd (run (stub_env ''linux'' True (Inr True)) (stub_args ''local'' (Some True) (Some 0))
                  caller_state)) ! 0
       = [''gpus'' \<mapsto> PyStr ''all'', ''network'' \<mapsto> PyStr ''host'',
          ''add-host'' \<mapsto> PyStr ''host.docker.internal:host-gateway'']
   \<and> ''gpus'' \<notin> {''network'', ''net'', ''add-host''}
   \<and> (heap (snd (run (stub_env ''linux'' True (Inr True)) (stub_args ''local'' (Some True) (Some 0))
                   caller_state)) ! 0) ''gpus'' = Some (PyStr ''all'')"
proof -
  have a: "docker_args (stub_args ''local'' (Some True) (Some 0)) = Some 0"
    by (simp add: stub_args_def)
  have b: "0 < length (heap caller_state)"
    by (simp add: caller_state_def)
  have c: "is_wandb_local_uri (stub_env ''linux'' True (Inr True))
             (base_url (stub_env ''linux'' True (Inr True)))"
    by (simp add: stub_env_sel)
  have d: "heap caller_state ! 0 = [''network'' \<mapsto> PyStr ''bridge'', ''gpus'' \<mapsto> PyStr ''all'']"
    by (simp add: caller_state_def)
  show ?thesis
    using caller_mapping_mutated_in_place [OF a b c] a b c
    by (simp add: stub_env_sel d fun_upd_twist)
qed

subsection \<open>Unknown resource names\<close>









end
